theory Spec2Isabelle
  imports Complex_Main
begin

section \<open>Numbers and arrays\<close>

text \<open>
  The item computes with numpy arrays of binary64 numbers. A number is modelled as an
  extended real with a not-a-number value: the special values of binary64 that the code
  depends on (\<open>NaN\<close>, the two infinities) are kept, finite arithmetic is exact
  (rounding and overflow are not modelled).
\<close>

datatype fl = NaN | NInf | PInf | Fin real

fun np_isnan :: "fl \<Rightarrow> bool" where
  "np_isnan NaN = True"
| "np_isnan _ = False"

fun fneg :: "fl \<Rightarrow> fl" where
  "fneg NaN = NaN"
| "fneg NInf = PInf"
| "fneg PInf = NInf"
| "fneg (Fin a) = Fin (- a)"

fun fadd :: "fl \<Rightarrow> fl \<Rightarrow> fl" where
  "fadd NaN _ = NaN"
| "fadd _ NaN = NaN"
| "fadd PInf NInf = NaN"
| "fadd NInf PInf = NaN"
| "fadd PInf _ = PInf"
| "fadd _ PInf = PInf"
| "fadd NInf _ = NInf"
| "fadd _ NInf = NInf"
| "fadd (Fin a) (Fin b) = Fin (a + b)"

definition fsub :: "fl \<Rightarrow> fl \<Rightarrow> fl" where
  "fsub a b = fadd a (fneg b)"

text \<open>\<open>v / 2.\<close>\<close>

fun fdiv2 :: "fl \<Rightarrow> fl" where
  "fdiv2 (Fin a) = Fin (a / 2)"
| "fdiv2 v = v"

text \<open>\<open>v > 0\<close>: a comparison with NaN is false.\<close>

fun fgt0 :: "fl \<Rightarrow> bool" where
  "fgt0 (Fin a) = (0 < a)"
| "fgt0 PInf = True"
| "fgt0 _ = False"

text \<open>
  \<open>np.log10\<close> on one element, under \<open>np.errstate(invalid='ignore', divide='ignore')\<close>:
  a negative argument is the invalid case and gives NaN, zero is the divide case and
  gives minus infinity; neither raises.
\<close>

fun np_log10 :: "fl \<Rightarrow> fl" where
  "np_log10 NaN = NaN"
| "np_log10 NInf = NaN"
| "np_log10 PInf = PInf"
| "np_log10 (Fin a) = (if a < 0 then NaN else if a = 0 then NInf else Fin (log 10 a))"

datatype error = ValueError | IndexError | UnboundLocalError | AttributeError

definition bindE :: "error + 'a \<Rightarrow> ('a \<Rightarrow> error + 'b) \<Rightarrow> error + 'b" where
  "bindE m f = (case m of Inl e \<Rightarrow> Inl e | Inr v \<Rightarrow> f v)"

text \<open>
  An elementwise binary operation on two one-dimensional arrays: equal lengths, or one
  of them of length one (stretched to the other); any other pair of shapes cannot be
  broadcast together.
\<close>

definition broadcast :: "('a \<Rightarrow> 'b \<Rightarrow> 'c) \<Rightarrow> 'a list \<Rightarrow> 'b list \<Rightarrow> error + 'c list" where
  "broadcast f xs ys =
     (if length xs = length ys then Inr (map2 f xs ys)
      else if length xs = 1 then Inr (map (f (hd xs)) ys)
      else if length ys = 1 then Inr (map (\<lambda>v. f v (hd ys)) xs)
      else Inl ValueError)"

text \<open>An error magnitude is a single value or an array.\<close>

datatype arg = Scalar fl | Array "fl list"

text \<open>\<open>a / 2.\<close>\<close>

fun div2 :: "arg \<Rightarrow> arg" where
  "div2 (Scalar v) = Scalar (fdiv2 v)"
| "div2 (Array vs) = Array (map fdiv2 vs)"

text \<open>\<open>y - a\<close> and \<open>y + a\<close> for an array \<open>y\<close>.\<close>

fun arr_sub :: "fl list \<Rightarrow> arg \<Rightarrow> error + fl list" where
  "arr_sub ys (Scalar c) = Inr (map (\<lambda>v. fsub v c) ys)"
| "arr_sub ys (Array cs) = broadcast fsub ys cs"

fun arr_add :: "fl list \<Rightarrow> arg \<Rightarrow> error + fl list" where
  "arr_add ys (Scalar c) = Inr (map (\<lambda>v. fadd v c) ys)"
| "arr_add ys (Array cs) = broadcast fadd ys cs"

text \<open>
  \<open>np.logical_or(np.isnan(a), np.logical_or(np.isnan(b), np.isnan(c)))\<close>
\<close>

definition is_nan3 :: "fl list \<Rightarrow> fl list \<Rightarrow> fl list \<Rightarrow> error + bool list" where
  "is_nan3 a b c =
     bindE (broadcast (\<or>) (map np_isnan b) (map np_isnan c))
       (\<lambda>bc. broadcast (\<or>) (map np_isnan a) bc)"

text \<open>
  \<open>a[np.logical_not(is_nan)]\<close>: indexing with a boolean array, which must have the
  length of \<open>a\<close>.
\<close>

definition mask_not :: "fl list \<Rightarrow> bool list \<Rightarrow> error + fl list" where
  "mask_not a is_nan =
     (if length is_nan = length a
      then Inr (map fst (filter (\<lambda>(v, n). \<not> n) (zip a is_nan)))
      else Inl IndexError)"

text \<open>\<open>a[i]\<close> for \<open>i\<close> from a \<open>range\<close>.\<close>

definition item_at :: "fl list \<Rightarrow> nat \<Rightarrow> error + fl" where
  "item_at a i = (if i < length a then Inr (a ! i) else Inl IndexError)"

section \<open>The painter path\<close>

text \<open>
  The path records the \<open>moveTo\<close>/\<open>lineTo\<close> pairs in the order the code issues them,
  one segment per pair. Each segment carries the loop of \<open>drawPath\<close> that issued it;
  the painter path itself is the sequence of segments without the labels.
\<close>

type_synonym point = "fl \<times> fl"
type_synonym segment = "point \<times> point"

datatype kind = VBar | VCapUpper | VCapLower | HBar | HCapRight | HCapLeft

type_synonym path = "(kind \<times> segment) list"

definition segments :: "path \<Rightarrow> segment list" where
  "segments p = map snd p"

definition of_kind :: "kind \<Rightarrow> path \<Rightarrow> segment list" where
  "of_kind k p = map snd (filter (\<lambda>e. fst e = k) p)"

text \<open>\<open>p.moveTo(xa[i], ya[i]); p.lineTo(xb[i], yb[i])\<close>\<close>

definition line_at :: "fl list \<Rightarrow> fl list \<Rightarrow> fl list \<Rightarrow> fl list \<Rightarrow> nat \<Rightarrow> error + segment" where
  "line_at xa ya xb yb i =
     bindE (item_at xa i) (\<lambda>a. bindE (item_at ya i) (\<lambda>b.
     bindE (item_at xb i) (\<lambda>c. bindE (item_at yb i) (\<lambda>d.
       Inr ((a, b), (c, d))))))"

text \<open>\<open>for i in range(n): p.moveTo(xa[i], ya[i]); p.lineTo(xb[i], yb[i])\<close>\<close>

fun draw_lines :: "kind \<Rightarrow> fl list \<Rightarrow> fl list \<Rightarrow> fl list \<Rightarrow> fl list \<Rightarrow> nat list \<Rightarrow> path \<Rightarrow> error + path" where
  "draw_lines k xa ya xb yb [] p = Inr p"
| "draw_lines k xa ya xb yb (i # rest) p =
     (case line_at xa ya xb yb i of
        Inl e \<Rightarrow> Inl e
      | Inr sg \<Rightarrow> draw_lines k xa ya xb yb rest (p @ [(k, sg)]))"

section \<open>The item\<close>

text \<open>
  The options, with the types the docstring of \<open>setData\<close> gives them: \<open>x\<close> and \<open>y\<close>
  are arrays; \<open>height\<close>, \<open>width\<close>, \<open>top\<close>, \<open>bottom\<close>, \<open>left\<close> and \<open>right\<close> are
  single values or arrays; \<open>beam\<close> is a single value; \<open>logMode\<close> is the pair of the
  two axes' flags. Each of them but \<open>logMode\<close> may be \<open>None\<close>. The pen is passed on to
  the toolkit and not looked at.
\<close>

type_synonym pen = string

record options =
  opt_x :: "fl list option"
  opt_y :: "fl list option"
  opt_height :: "arg option"
  opt_width :: "arg option"
  opt_top :: "arg option"
  opt_bottom :: "arg option"
  opt_left :: "arg option"
  opt_right :: "arg option"
  opt_beam :: "fl option"
  opt_pen :: "pen option"
  opt_logMode :: "bool \<times> bool"

text \<open>Calls to the inherited methods of \<open>GraphicsObject\<close>, in order.\<close>

datatype event = Update | PrepareGeometryChange | InformViewBoundsChanged

record item =
  opts :: options
  path :: "path option"
  events :: "event list"

text \<open>
  The keyword arguments of one \<open>setData\<close> call: per recognised key, \<open>None\<close> when the
  call does not name it, \<open>Some v\<close> when it passes the value \<open>v\<close> (which may be
  Python's \<open>None\<close>).
\<close>

record kwargs =
  kw_x :: "fl list option option"
  kw_y :: "fl list option option"
  kw_height :: "arg option option"
  kw_width :: "arg option option"
  kw_top :: "arg option option"
  kw_bottom :: "arg option option"
  kw_left :: "arg option option"
  kw_right :: "arg option option"
  kw_beam :: "fl option option"
  kw_pen :: "pen option option"
  kw_logMode :: "(bool \<times> bool) option"

definition no_kwargs :: kwargs where
  "no_kwargs = \<lparr>kw_x = None, kw_y = None, kw_height = None, kw_width = None,
     kw_top = None, kw_bottom = None, kw_left = None, kw_right = None,
     kw_beam = None, kw_pen = None, kw_logMode = None\<rparr>"

definition assign :: "'a option \<Rightarrow> 'a \<Rightarrow> 'a" where
  "assign kw old = (case kw of None \<Rightarrow> old | Some v \<Rightarrow> v)"

text \<open>\<open>self.opts.update(opts)\<close>\<close>

definition dict_update :: "options \<Rightarrow> kwargs \<Rightarrow> options" where
  "dict_update d kw =
     \<lparr>opt_x = assign (kw_x kw) (opt_x d),
      opt_y = assign (kw_y kw) (opt_y d),
      opt_height = assign (kw_height kw) (opt_height d),
      opt_width = assign (kw_width kw) (opt_width d),
      opt_top = assign (kw_top kw) (opt_top d),
      opt_bottom = assign (kw_bottom kw) (opt_bottom d),
      opt_left = assign (kw_left kw) (opt_left d),
      opt_right = assign (kw_right kw) (opt_right d),
      opt_beam = assign (kw_beam kw) (opt_beam d),
      opt_pen = assign (kw_pen kw) (opt_pen d),
      opt_logMode = assign (kw_logMode kw) (opt_logMode d)\<rparr>"

definition setData :: "kwargs \<Rightarrow> item \<Rightarrow> item" where
  "setData kw s =
     s\<lparr>opts := dict_update (opts s) kw,
       path := None,
       events := events s @ [Update, PrepareGeometryChange, InformViewBoundsChanged]\<rparr>"

definition setOpts :: "kwargs \<Rightarrow> item \<Rightarrow> item" where
  "setOpts kw s = setData kw s"

definition default_opts :: options where
  "default_opts = \<lparr>opt_x = None, opt_y = None, opt_height = None, opt_width = None,
     opt_top = None, opt_bottom = None, opt_left = None, opt_right = None,
     opt_beam = None, opt_pen = None, opt_logMode = (False, False)\<rparr>"

text \<open>\<open>ErrorBarItem(**opts)\<close>\<close>

definition init :: "kwargs \<Rightarrow> item" where
  "init kw = setData kw \<lparr>opts = default_opts, path = None, events = []\<rparr>"

definition getDrawValue :: "options \<Rightarrow> fl list \<Rightarrow> bool \<Rightarrow> fl list" where
  "getDrawValue d data horizontal =
     (let log = (horizontal \<and> fst (opt_logMode d)) \<or> (\<not> horizontal \<and> snd (opt_logMode d))
      in if log then map np_log10 data else data)"

definition setLogMode :: "bool \<Rightarrow> bool \<Rightarrow> item \<Rightarrow> item" where
  "setLogMode xMode yMode s =
     (if opt_logMode (opts s) = (xMode, yMode) then s
      else s\<lparr>opts := (opts s)\<lparr>opt_logMode := (xMode, yMode)\<rparr>,
             path := None,
             events := events s @ [Update, PrepareGeometryChange, InformViewBoundsChanged]\<rparr>)"

subsection \<open>drawPath\<close>

text \<open>
  The end points of the vertical bars: \<open>height\<close>, when given, decides both; otherwise
  \<open>bottom\<close> and \<open>top\<close> each decide one.
\<close>

definition vertical_ends :: "options \<Rightarrow> fl list \<Rightarrow> error + (fl list \<times> fl list)" where
  "vertical_ends d y =
     (case opt_height d of
        Some height \<Rightarrow>
          bindE (arr_sub y (div2 height)) (\<lambda>y1.
          bindE (arr_add y (div2 height)) (\<lambda>y2. Inr (y1, y2)))
      | None \<Rightarrow>
          bindE (case opt_bottom d of None \<Rightarrow> Inr y | Some bottomv \<Rightarrow> arr_sub y bottomv) (\<lambda>y1.
          bindE (case opt_top d of None \<Rightarrow> Inr y | Some topv \<Rightarrow> arr_add y topv) (\<lambda>y2.
            Inr (y1, y2))))"

definition beam_on :: "options \<Rightarrow> bool" where
  "beam_on d = (case opt_beam d of None \<Rightarrow> False | Some beam \<Rightarrow> fgt0 beam)"

definition beam_sub :: "options \<Rightarrow> fl list \<Rightarrow> fl list" where
  "beam_sub d r = map (\<lambda>v. fsub v (fdiv2 (the (opt_beam d)))) r"

definition beam_add :: "options \<Rightarrow> fl list \<Rightarrow> fl list" where
  "beam_add d r = map (\<lambda>v. fadd v (fdiv2 (the (opt_beam d)))) r"

text \<open>
  The filter of a pass: the three arrays without the indices where one of them is NaN.
\<close>

definition nan_filter :: "fl list \<Rightarrow> fl list \<Rightarrow> fl list \<Rightarrow> error + (fl list \<times> fl list \<times> fl list)" where
  "nan_filter a b c =
     bindE (is_nan3 a b c) (\<lambda>is_nan.
     bindE (mask_not a is_nan) (\<lambda>a'.
     bindE (mask_not b is_nan) (\<lambda>b'.
     bindE (mask_not c is_nan) (\<lambda>c'. Inr (a', b', c')))))"

text \<open>The beams of the vertical bars (lines 107 to 117).\<close>

definition vertical_caps :: "options \<Rightarrow> fl list \<Rightarrow> fl list \<Rightarrow> fl list \<Rightarrow> path \<Rightarrow> error + path" where
  "vertical_caps d rx ry1 ry2 p =
     (if beam_on d then
        bindE
          (if opt_height d \<noteq> None \<or> opt_top d \<noteq> None
           then draw_lines VCapUpper (beam_sub d rx) ry2 (beam_add d rx) ry2 [0..<length rx] p
           else Inr p) (\<lambda>q.
          (if opt_height d \<noteq> None \<or> opt_bottom d \<noteq> None
           then draw_lines VCapLower (beam_sub d rx) ry1 (beam_add d rx) ry1 [0..<length rx] q
           else Inr q))
      else Inr p)"

text \<open>
  The vertical bars (lines 77 to 117). The result is the path so far and the local
  variable \<open>rx\<close>, which is bound only when the branch is taken.
\<close>

definition vertical_pass :: "options \<Rightarrow> fl list \<Rightarrow> fl list \<Rightarrow> path \<Rightarrow> error + (path \<times> fl list option)" where
  "vertical_pass d x y p =
     (if opt_height d \<noteq> None \<or> opt_top d \<noteq> None \<or> opt_bottom d \<noteq> None then
        bindE (vertical_ends d y) (\<lambda>(y1, y2).
        bindE (nan_filter (getDrawValue d x True) (getDrawValue d y1 False)
                 (getDrawValue d y2 False)) (\<lambda>(rx, ry1, ry2).
        bindE (draw_lines VBar rx ry1 rx ry2 [0..<length rx] p) (\<lambda>q.
        bindE (vertical_caps d rx ry1 ry2 q) (\<lambda>q'.
        Inr (q', Some rx)))))
      else Inr (p, None))"

definition horizontal_ends :: "options \<Rightarrow> fl list \<Rightarrow> error + (fl list \<times> fl list)" where
  "horizontal_ends d x =
     (case opt_width d of
        Some width \<Rightarrow>
          bindE (arr_sub x (div2 width)) (\<lambda>x1.
          bindE (arr_add x (div2 width)) (\<lambda>x2. Inr (x1, x2)))
      | None \<Rightarrow>
          bindE (case opt_left d of None \<Rightarrow> Inr x | Some leftv \<Rightarrow> arr_sub x leftv) (\<lambda>x1.
          bindE (case opt_right d of None \<Rightarrow> Inr x | Some rightv \<Rightarrow> arr_add x rightv) (\<lambda>x2.
            Inr (x1, x2))))"

text \<open>\<open>len(rx)\<close>, where \<open>rx\<close> is the local variable of the vertical bars.\<close>

definition len_local :: "fl list option \<Rightarrow> error + nat" where
  "len_local rx = (case rx of None \<Rightarrow> Inl UnboundLocalError | Some r \<Rightarrow> Inr (length r))"

text \<open>
  The beams of the horizontal bars (lines 149 to 159); \<open>n\<close> is \<open>len(rx)\<close>.
\<close>

definition horizontal_caps :: "options \<Rightarrow> nat \<Rightarrow> fl list \<Rightarrow> fl list \<Rightarrow> fl list \<Rightarrow> path \<Rightarrow> error + path" where
  "horizontal_caps d n rx1 rx2 ry p =
     (if beam_on d then
        bindE
          (if opt_width d \<noteq> None \<or> opt_right d \<noteq> None
           then draw_lines HCapRight rx2 (beam_sub d ry) rx2 (beam_add d ry) [0..<n] p
           else Inr p) (\<lambda>q.
          (if opt_width d \<noteq> None \<or> opt_left d \<noteq> None
           then draw_lines HCapLeft rx1 (beam_sub d ry) rx1 (beam_add d ry) [0..<n] q
           else Inr q))
      else Inr p)"

text \<open>
  The horizontal bars (lines 119 to 159). Every loop runs over \<open>range(len(rx))\<close>,
  with the \<open>rx\<close> of the vertical bars.
\<close>

definition horizontal_pass :: "options \<Rightarrow> fl list \<Rightarrow> fl list \<Rightarrow> fl list option \<Rightarrow> path \<Rightarrow> error + path" where
  "horizontal_pass d x y rx p =
     (if opt_width d \<noteq> None \<or> opt_right d \<noteq> None \<or> opt_left d \<noteq> None then
        bindE (horizontal_ends d x) (\<lambda>(x1, x2).
        bindE (nan_filter (getDrawValue d x1 True) (getDrawValue d x2 True)
                 (getDrawValue d y False)) (\<lambda>(rx1, rx2, ry).
        bindE (len_local rx) (\<lambda>n.
        bindE (draw_lines HBar rx1 ry rx2 ry [0..<n] p) (\<lambda>q.
        horizontal_caps d n rx1 rx2 ry q))))
      else Inr p)"

text \<open>
  \<open>drawPath\<close>: with \<open>x\<close> or \<open>y\<close> missing it returns at once, and the item is as it
  was. Otherwise the two passes fill a fresh painter path, which is stored at the end.
\<close>

definition drawPath :: "item \<Rightarrow> error + item" where
  "drawPath s =
     (case (opt_x (opts s), opt_y (opts s)) of
        (Some x, Some y) \<Rightarrow>
          bindE (vertical_pass (opts s) x y []) (\<lambda>(p, rx).
          bindE (horizontal_pass (opts s) x y rx p) (\<lambda>p.
            Inr (s\<lparr>path := Some p, events := events s @ [PrepareGeometryChange]\<rparr>)))
      | _ \<Rightarrow> Inr s)"

text \<open>
  \<open>boundingRect\<close>: \<open>rect\<close> is \<open>QPainterPath.boundingRect\<close> of the toolkit. Calling it
  on \<open>None\<close> is an AttributeError.
\<close>

definition path_boundingRect :: "(segment list \<Rightarrow> 'r) \<Rightarrow> path option \<Rightarrow> error + 'r" where
  "path_boundingRect rect p = (case p of None \<Rightarrow> Inl AttributeError | Some q \<Rightarrow> Inr (rect (segments q)))"

definition boundingRect :: "(segment list \<Rightarrow> 'r) \<Rightarrow> item \<Rightarrow> error + ('r \<times> item)" where
  "boundingRect rect s =
     bindE (if path s = None then drawPath s else Inr s) (\<lambda>s.
     bindE (path_boundingRect rect (path s)) (\<lambda>r. Inr (r, s)))"

section \<open>The expected geometry\<close>

text \<open>
  The indices that the specification's filter of a pass keeps: those where none of the
  three transformed arrays is NaN.
\<close>

definition surviving :: "fl list \<Rightarrow> fl list \<Rightarrow> fl list \<Rightarrow> nat list" where
  "surviving a b c =
     filter (\<lambda>i. \<not> (np_isnan (a ! i) \<or> np_isnan (b ! i) \<or> np_isnan (c ! i))) [0..<length a]"

text \<open>The segment of index \<open>i\<close>, from \<open>(xa[i], ya[i])\<close> to \<open>(xb[i], yb[i])\<close>.\<close>

definition seg_of :: "kind \<Rightarrow> fl list \<Rightarrow> fl list \<Rightarrow> fl list \<Rightarrow> fl list \<Rightarrow> nat \<Rightarrow> kind \<times> segment" where
  "seg_of k xa ya xb yb i = (k, ((xa ! i, ya ! i), (xb ! i, yb ! i)))"

text \<open>
  The beams the specification asks for: one per kept index, at \<open>y2\<close> when \<open>height\<close> or
  \<open>top\<close> is given and at \<open>y1\<close> when \<open>height\<close> or \<open>bottom\<close> is given, each from
  \<open>rx - beam/2\<close> to \<open>rx + beam/2\<close>, and only with a positive beam.
\<close>

definition vertical_cap_segments :: "options \<Rightarrow> fl list \<Rightarrow> fl list \<Rightarrow> fl list \<Rightarrow> path" where
  "vertical_cap_segments d rx ry1 ry2 =
     (if beam_on d \<and> (opt_height d \<noteq> None \<or> opt_top d \<noteq> None)
      then map (seg_of VCapUpper (beam_sub d rx) ry2 (beam_add d rx) ry2) (surviving rx ry1 ry2)
      else []) @
     (if beam_on d \<and> (opt_height d \<noteq> None \<or> opt_bottom d \<noteq> None)
      then map (seg_of VCapLower (beam_sub d rx) ry1 (beam_add d rx) ry1) (surviving rx ry1 ry2)
      else [])"

text \<open>
  The beams of the horizontal bars as the code draws them, for the first \<open>n\<close> indices
  of the filtered arrays.
\<close>

definition horizontal_cap_segments :: "options \<Rightarrow> nat \<Rightarrow> fl list \<Rightarrow> fl list \<Rightarrow> fl list \<Rightarrow> path" where
  "horizontal_cap_segments d n rx1 rx2 ry =
     (if beam_on d \<and> (opt_width d \<noteq> None \<or> opt_right d \<noteq> None)
      then map (seg_of HCapRight rx2 (beam_sub d ry) rx2 (beam_add d ry)) [0..<n] else []) @
     (if beam_on d \<and> (opt_width d \<noteq> None \<or> opt_left d \<noteq> None)
      then map (seg_of HCapLeft rx1 (beam_sub d ry) rx1 (beam_add d ry)) [0..<n] else [])"


section \<open>Concrete items\<close>

text \<open>
  Scenario A: \<open>x=[1,2]\<close>, \<open>y=[10,20]\<close>, \<open>top=[1,1]\<close>, \<open>bottom=[1,1]\<close>, \<open>beam=0.5\<close>.
\<close>

definition scenario_A :: item where
  "scenario_A = init (no_kwargs\<lparr>
     kw_x := Some (Some [Fin 1, Fin 2]),
     kw_y := Some (Some [Fin 10, Fin 20]),
     kw_top := Some (Some (Array [Fin 1, Fin 1])),
     kw_bottom := Some (Some (Array [Fin 1, Fin 1])),
     kw_beam := Some (Some (Fin (1 / 2)))\<rparr>)"

text \<open>Scenario A, then \<open>setData(beam=0)\<close>.\<close>

definition scenario_A_beam0 :: item where
  "scenario_A_beam0 = setData (no_kwargs\<lparr>kw_beam := Some (Some (Fin 0))\<rparr>) scenario_A"

text \<open>Scenario B: scenario A, then \<open>setData(height=[4,4])\<close>.\<close>

definition scenario_B :: item where
  "scenario_B = setData (no_kwargs\<lparr>kw_height := Some (Some (Array [Fin 4, Fin 4]))\<rparr>) scenario_A"

text \<open>\<open>ErrorBarItem(x=[1], y=[10], height=2)\<close>: a single value as height.\<close>

definition scalar_height :: item where
  "scalar_height = init (no_kwargs\<lparr>
     kw_x := Some (Some [Fin 1]),
     kw_y := Some (Some [Fin 10]),
     kw_height := Some (Some (Scalar (Fin 2)))\<rparr>)"

text \<open>Scenario C: \<open>x=[1]\<close>, \<open>y=[0]\<close>, \<open>height=[2]\<close>, log mode on the y axis.\<close>

definition scenario_C :: item where
  "scenario_C = init (no_kwargs\<lparr>
     kw_x := Some (Some [Fin 1]),
     kw_y := Some (Some [Fin 0]),
     kw_height := Some (Some (Array [Fin 2])),
     kw_logMode := Some (False, True)\<rparr>)"

text \<open>Scenario D: \<open>ErrorBarItem()\<close>, no \<open>x\<close> and no \<open>y\<close>.\<close>

definition scenario_D :: item where
  "scenario_D = init no_kwargs"

text \<open>\<open>ErrorBarItem(x=[1], y=[1], width=2)\<close>: horizontal bars only.\<close>

definition horizontal_only :: item where
  "horizontal_only = init (no_kwargs\<lparr>
     kw_x := Some (Some [Fin 1]),
     kw_y := Some (Some [Fin 1]),
     kw_width := Some (Some (Scalar (Fin 2)))\<rparr>)"

text \<open>
  \<open>ErrorBarItem(x=[1,2], y=[1,1], bottom=[0,2], right=0, logMode=[False,True])\<close>: the
  second point has \<open>y1 = -1\<close>, which is NaN on the logarithmic y axis, so the vertical
  filter drops it; the horizontal filter drops nothing.
\<close>

definition unequal_filters :: item where
  "unequal_filters = init (no_kwargs\<lparr>
     kw_x := Some (Some [Fin 1, Fin 2]),
     kw_y := Some (Some [Fin 1, Fin 1]),
     kw_bottom := Some (Some (Array [Fin 0, Fin 2])),
     kw_right := Some (Some (Scalar (Fin 0))),
     kw_logMode := Some (False, True)\<rparr>)"

text \<open>
  \<open>ErrorBarItem(x=[1,1], y=[1,1], top=0, left=[0,2], logMode=[True,False])\<close>: the
  second point has \<open>x1 = -1\<close>, which is NaN on the logarithmic x axis, so the
  horizontal filter drops it; the vertical filter drops nothing.
\<close>

definition vertical_keeps_more :: item where
  "vertical_keeps_more = init (no_kwargs\<lparr>
     kw_x := Some (Some [Fin 1, Fin 1]),
     kw_y := Some (Some [Fin 1, Fin 1]),
     kw_top := Some (Some (Scalar (Fin 0))),
     kw_left := Some (Some (Array [Fin 0, Fin 2])),
     kw_logMode := Some (True, False)\<rparr>)"

text \<open>
  \<open>ErrorBarItem(x=[1,1], y=[0,10], height=[2,2], beam=0, logMode=[False,True])\<close>: the
  first point has \<open>y1 = -1\<close>, the second is valid.
\<close>

definition one_dropped :: item where
  "one_dropped = init (no_kwargs\<lparr>
     kw_x := Some (Some [Fin 1, Fin 1]),
     kw_y := Some (Some [Fin 0, Fin 10]),
     kw_height := Some (Some (Array [Fin 2, Fin 2])),
     kw_beam := Some (Some (Fin 0)),
     kw_logMode := Some (False, True)\<rparr>)"

section \<open>Evaluation and basic facts\<close>

lemmas evals = init_def setData_def no_kwargs_def dict_update_def assign_def default_opts_def
  drawPath_def vertical_pass_def horizontal_pass_def horizontal_ends_def vertical_ends_def
  bindE_def getDrawValue_def is_nan3_def broadcast_def mask_not_def nan_filter_def
  vertical_caps_def horizontal_caps_def line_at_def item_at_def beam_on_def beam_sub_def
  beam_add_def fsub_def len_local_def

lemma bindE_Inr_iff: "bindE m f = Inr r \<longleftrightarrow> (\<exists>v. m = Inr v \<and> f v = Inr r)"
  by (cases m) (simp_all add: bindE_def)

lemma bindE_Inr [simp]: "bindE (Inr v) f = f v"
  by (simp add: bindE_def)

lemma bindE_Inl [simp]: "bindE (Inl e) f = Inl e"
  by (simp add: bindE_def)

lemma line_at_in_range:
  "i < length xa \<Longrightarrow> i < length ya \<Longrightarrow> i < length xb \<Longrightarrow> i < length yb \<Longrightarrow>
   line_at xa ya xb yb i = Inr ((xa ! i, ya ! i), (xb ! i, yb ! i))"
  by (simp add: line_at_def item_at_def)

lemma line_at_Inr:
  "line_at xa ya xb yb i = Inr sg \<Longrightarrow>
   i < length xa \<and> i < length ya \<and> i < length xb \<and> i < length yb"
  by (auto simp: line_at_def item_at_def bindE_def split: if_splits)

lemma draw_lines_Inr_iff:
  "draw_lines k xa ya xb yb ns p = Inr p' \<longleftrightarrow>
     (\<forall>i\<in>set ns. i < length xa \<and> i < length ya \<and> i < length xb \<and> i < length yb) \<and>
     p' = p @ map (seg_of k xa ya xb yb) ns"
proof (induction ns arbitrary: p)
  case Nil
  show ?case by auto
next
  case (Cons i ns)
  show ?case
  proof (cases "line_at xa ya xb yb i")
    case (Inl e)
    then have "\<not> (i < length xa \<and> i < length ya \<and> i < length xb \<and> i < length yb)"
      using line_at_in_range [of i xa ya xb yb] by auto
    with Inl show ?thesis by auto
  next
    case (Inr sg)
    from line_at_Inr [OF Inr] have r: "i < length xa" "i < length ya" "i < length xb" "i < length yb"
      by simp_all
    with Inr have sg: "sg = ((xa ! i, ya ! i), (xb ! i, yb ! i))"
      by (simp add: line_at_in_range)
    show ?thesis using Inr r sg Cons.IH [of "p @ [(k, sg)]"]
      by (auto simp: seg_of_def)
  qed
qed

lemma mask_not_Inr_iff:
  "mask_not a m = Inr a' \<longleftrightarrow>
     length m = length a \<and> a' = map ((!) a) (filter (\<lambda>i. \<not> m ! i) [0..<length a])"
proof (cases "length m = length a")
  case False
  then show ?thesis by (simp add: mask_not_def)
next
  case True
  have z: "zip a m = map (\<lambda>i. (a ! i, m ! i)) [0..<length a]"
    using True by (intro nth_equalityI) simp_all
  have "map fst (filter (\<lambda>(v, n). \<not> n) (zip a m)) =
        map ((!) a) (filter (\<lambda>i. \<not> m ! i) [0..<length a])"
    unfolding z by (simp add: filter_map comp_def)
  with True show ?thesis by (auto simp: mask_not_def)
qed

lemma broadcast_same_length:
  "length xs = length ys \<Longrightarrow> broadcast f xs ys = Inr (map (\<lambda>i. f (xs ! i) (ys ! i)) [0..<length xs])"
  unfolding broadcast_def by (auto intro: nth_equalityI)

lemma is_nan3_same_length:
  assumes "length a = length b" "length b = length c"
  shows "is_nan3 a b c = Inr (map (\<lambda>i. np_isnan (a ! i) \<or> np_isnan (b ! i) \<or> np_isnan (c ! i)) [0..<length a])"
  using assms by (simp add: is_nan3_def broadcast_same_length cong: map_cong)


lemma surviving_in_range: "i \<in> set (surviving a b c) \<Longrightarrow> i < length a"
  by (simp add: surviving_def)

lemma filtered_loop:
  assumes "\<forall>i\<in>set S. i < length A \<and> i < length B \<and> i < length C \<and> i < length D"
  shows "draw_lines k (map ((!) A) S) (map ((!) B) S) (map ((!) C) S) (map ((!) D) S)
           [0..<length S] p = Inr (p @ map (seg_of k A B C D) S)"
proof -
  have "map (seg_of k (map ((!) A) S) (map ((!) B) S) (map ((!) C) S) (map ((!) D) S))
          [0..<length S] = map (seg_of k A B C D) S"
    by (intro nth_equalityI) (simp_all add: seg_of_def)
  then show ?thesis by (simp add: draw_lines_Inr_iff)
qed

lemma beam_sub_filtered:
  "\<forall>i\<in>set S. i < length r \<Longrightarrow> beam_sub d (map ((!) r) S) = map ((!) (beam_sub d r)) S"
  by (simp add: beam_sub_def)

lemma beam_add_filtered:
  "\<forall>i\<in>set S. i < length r \<Longrightarrow> beam_add d (map ((!) r) S) = map ((!) (beam_add d r)) S"
  by (simp add: beam_add_def)

lemma beam_length [simp]: "length (beam_sub d r) = length r" "length (beam_add d r) = length r"
  by (simp_all add: beam_sub_def beam_add_def)


lemma nan_filter_Inr:
  assumes "nan_filter a b c = Inr (a', b', c')"
  shows "length a = length b \<and> length b = length c \<and>
         a' = map ((!) a) (surviving a b c) \<and>
         b' = map ((!) b) (surviving a b c) \<and>
         c' = map ((!) c) (surviving a b c)"
proof -
  from assms obtain m where m: "is_nan3 a b c = Inr m"
    and a: "mask_not a m = Inr a'" and b: "mask_not b m = Inr b'" and c: "mask_not c m = Inr c'"
    by (auto simp: nan_filter_def bindE_Inr_iff)
  from a b c have len: "length m = length a" "length m = length b" "length m = length c"
    by (simp_all add: mask_not_Inr_iff)
  then have ab: "length a = length b" and bc: "length b = length c" by simp_all
  from is_nan3_same_length [OF ab bc] m
  have m_eq: "m = map (\<lambda>i. np_isnan (a ! i) \<or> np_isnan (b ! i) \<or> np_isnan (c ! i)) [0..<length a]"
    by simp
  have keep: "filter (\<lambda>i. \<not> m ! i) [0..<length a] = surviving a b c"
    unfolding surviving_def by (rule filter_cong) (simp_all add: m_eq)
  from a b c keep ab bc show ?thesis
    by (simp add: mask_not_Inr_iff)
qed

lemma vertical_caps_filtered:
  assumes rng: "\<forall>i\<in>set S. i < length rx \<and> i < length ry1 \<and> i < length ry2"
    and S: "S = surviving rx ry1 ry2"
  shows "vertical_caps d (map ((!) rx) S) (map ((!) ry1) S) (map ((!) ry2) S) p =
         Inr (p @ vertical_cap_segments d rx ry1 ry2)"
proof -
  from rng have rngb: "\<forall>i\<in>set S. i < length rx" by simp
  have up: "draw_lines VCapUpper (beam_sub d (map ((!) rx) S)) (map ((!) ry2) S)
              (beam_add d (map ((!) rx) S)) (map ((!) ry2) S) [0..<length S] q =
            Inr (q @ map (seg_of VCapUpper (beam_sub d rx) ry2 (beam_add d rx) ry2) S)" for q
    using rng unfolding beam_sub_filtered [OF rngb] beam_add_filtered [OF rngb]
    by (simp add: filtered_loop)
  have lo: "draw_lines VCapLower (beam_sub d (map ((!) rx) S)) (map ((!) ry1) S)
              (beam_add d (map ((!) rx) S)) (map ((!) ry1) S) [0..<length S] q =
            Inr (q @ map (seg_of VCapLower (beam_sub d rx) ry1 (beam_add d rx) ry1) S)" for q
    using rng unfolding beam_sub_filtered [OF rngb] beam_add_filtered [OF rngb]
    by (simp add: filtered_loop)
  show ?thesis
    unfolding vertical_caps_def vertical_cap_segments_def S [symmetric]
    by (simp add: up lo)
qed

lemma vertical_pass_Inr:
  assumes ok: "vertical_pass d x y p = Inr (p', r)"
    and taken: "opt_height d \<noteq> None \<or> opt_top d \<noteq> None \<or> opt_bottom d \<noteq> None"
  shows "\<exists>y1 y2. vertical_ends d y = Inr (y1, y2) \<and>
           length (getDrawValue d x True) = length (getDrawValue d y1 False) \<and>
           length (getDrawValue d y1 False) = length (getDrawValue d y2 False) \<and>
           r = Some (map ((!) (getDrawValue d x True))
                 (surviving (getDrawValue d x True) (getDrawValue d y1 False) (getDrawValue d y2 False))) \<and>
           p' = p @ map (seg_of VBar (getDrawValue d x True) (getDrawValue d y1 False)
                          (getDrawValue d x True) (getDrawValue d y2 False))
                      (surviving (getDrawValue d x True) (getDrawValue d y1 False) (getDrawValue d y2 False))
                  @ vertical_cap_segments d (getDrawValue d x True) (getDrawValue d y1 False)
                      (getDrawValue d y2 False)"
proof -
  from ok taken obtain y1 y2 where ends: "vertical_ends d y = Inr (y1, y2)"
    by (cases "vertical_ends d y") (auto simp: vertical_pass_def)
  define rx where "rx = getDrawValue d x True"
  define ry1 where "ry1 = getDrawValue d y1 False"
  define ry2 where "ry2 = getDrawValue d y2 False"
  define S where "S = surviving rx ry1 ry2"
  from ok taken ends obtain fx f1 f2 pa where
    flt: "nan_filter rx ry1 ry2 = Inr (fx, f1, f2)"
    and bars: "draw_lines VBar fx f1 fx f2 [0..<length fx] p = Inr pa"
    and caps: "vertical_caps d fx f1 f2 pa = Inr p'"
    and res: "r = Some fx"
    unfolding vertical_pass_def rx_def ry1_def ry2_def
    by (auto simp: bindE_Inr_iff)
  from nan_filter_Inr [OF flt]
  have len: "length rx = length ry1" "length ry1 = length ry2"
    and f: "fx = map ((!) rx) S" "f1 = map ((!) ry1) S" "f2 = map ((!) ry2) S"
    by (simp_all add: S_def)
  have rng: "\<forall>i\<in>set S. i < length rx \<and> i < length ry1 \<and> i < length ry2"
    using len surviving_in_range [of _ rx ry1 ry2] by (auto simp: S_def)
  have lS: "length fx = length S" by (simp add: f)
  have pa: "pa = p @ map (seg_of VBar rx ry1 rx ry2) S"
    using bars rng unfolding f lS by (simp add: filtered_loop)
  have p': "p' = pa @ vertical_cap_segments d rx ry1 ry2"
    using caps unfolding f vertical_caps_filtered [OF rng S_def] by simp
  show ?thesis
    using ends len f(1) pa p' res
    by (simp add: rx_def ry1_def ry2_def S_def)
qed

lemma vertical_pass_skip:
  "\<not> (opt_height d \<noteq> None \<or> opt_top d \<noteq> None \<or> opt_bottom d \<noteq> None) \<Longrightarrow>
   vertical_pass d x y p = Inr (p, None)"
  by (simp add: vertical_pass_def)

lemma horizontal_caps_Inr:
  assumes "horizontal_caps d n rx1 rx2 ry p = Inr p'"
  shows "p' = p @ horizontal_cap_segments d n rx1 rx2 ry"
  using assms
  by (auto simp: horizontal_caps_def horizontal_cap_segments_def bindE_Inr_iff
      draw_lines_Inr_iff split: if_splits)

lemma horizontal_pass_Inr:
  assumes ok: "horizontal_pass d x y r p = Inr p'"
    and taken: "opt_width d \<noteq> None \<or> opt_right d \<noteq> None \<or> opt_left d \<noteq> None"
  shows "\<exists>x1 x2 rv rx1 rx2 ry. horizontal_ends d x = Inr (x1, x2) \<and> r = Some rv \<and>
           nan_filter (getDrawValue d x1 True) (getDrawValue d x2 True) (getDrawValue d y False)
             = Inr (rx1, rx2, ry) \<and>
           length rv \<le> length rx1 \<and>
           p' = p @ map (seg_of HBar rx1 ry rx2 ry) [0..<length rv]
                  @ horizontal_cap_segments d (length rv) rx1 rx2 ry"
proof -
  from ok taken obtain x1 x2 where ends: "horizontal_ends d x = Inr (x1, x2)"
    by (cases "horizontal_ends d x") (auto simp: horizontal_pass_def)
  from ok taken ends obtain rx1 rx2 ry n pa where
    flt: "nan_filter (getDrawValue d x1 True) (getDrawValue d x2 True) (getDrawValue d y False)
            = Inr (rx1, rx2, ry)"
    and n: "len_local r = Inr n"
    and bars: "draw_lines HBar rx1 ry rx2 ry [0..<n] p = Inr pa"
    and caps: "horizontal_caps d n rx1 rx2 ry pa = Inr p'"
    unfolding horizontal_pass_def by (auto simp: bindE_Inr_iff)
  from n obtain rv where r: "r = Some rv" and nl: "n = length rv"
    by (cases r) (auto simp: len_local_def)
  from bars have pa: "pa = p @ map (seg_of HBar rx1 ry rx2 ry) [0..<n]"
    and rng: "\<forall>i\<in>set [0..<n]. i < length rx1"
    by (simp_all add: draw_lines_Inr_iff)
  from rng have le: "n \<le> length rx1"
    by (cases n) auto
  from horizontal_caps_Inr [OF caps] pa ends r nl flt le show ?thesis by simp
qed

lemma horizontal_pass_skip:
  "\<not> (opt_width d \<noteq> None \<or> opt_right d \<noteq> None \<or> opt_left d \<noteq> None) \<Longrightarrow>
   horizontal_pass d x y r p = Inr p"
  by (simp add: horizontal_pass_def)

lemma of_kind_append [simp]: "of_kind k (p @ q) = of_kind k p @ of_kind k q"
  by (simp add: of_kind_def)

lemma of_kind_Nil [simp]: "of_kind k [] = []"
  by (simp add: of_kind_def)

lemma of_kind_seg_of:
  "of_kind k (map (seg_of k' xa ya xb yb) S) =
     (if k = k' then map (\<lambda>i. ((xa ! i, ya ! i), (xb ! i, yb ! i))) S else [])"
  by (induction S) (auto simp: of_kind_def seg_of_def)

lemma of_kind_vertical_caps:
  "of_kind k (vertical_cap_segments d rx ry1 ry2) =
     (if k = VCapUpper \<and> beam_on d \<and> (opt_height d \<noteq> None \<or> opt_top d \<noteq> None)
      then map (\<lambda>i. ((beam_sub d rx ! i, ry2 ! i), (beam_add d rx ! i, ry2 ! i))) (surviving rx ry1 ry2)
      else if k = VCapLower \<and> beam_on d \<and> (opt_height d \<noteq> None \<or> opt_bottom d \<noteq> None)
      then map (\<lambda>i. ((beam_sub d rx ! i, ry1 ! i), (beam_add d rx ! i, ry1 ! i))) (surviving rx ry1 ry2)
      else [])"
  by (auto simp: vertical_cap_segments_def of_kind_seg_of)

lemma of_kind_horizontal_caps:
  "of_kind k (horizontal_cap_segments d n rx1 rx2 ry) =
     (if k = HCapRight \<and> beam_on d \<and> (opt_width d \<noteq> None \<or> opt_right d \<noteq> None)
      then map (\<lambda>i. ((rx2 ! i, beam_sub d ry ! i), (rx2 ! i, beam_add d ry ! i))) [0..<n]
      else if k = HCapLeft \<and> beam_on d \<and> (opt_width d \<noteq> None \<or> opt_left d \<noteq> None)
      then map (\<lambda>i. ((rx1 ! i, beam_sub d ry ! i), (rx1 ! i, beam_add d ry ! i))) [0..<n]
      else [])"
  by (auto simp: horizontal_cap_segments_def of_kind_seg_of)

text \<open>What the horizontal pass adds to each kind.\<close>

lemma horizontal_pass_kinds:
  assumes "horizontal_pass d x y r p = Inr p'"
  shows "of_kind VBar p' = of_kind VBar p \<and>
         of_kind VCapUpper p' = of_kind VCapUpper p \<and>
         of_kind VCapLower p' = of_kind VCapLower p \<and>
         (\<not> beam_on d \<longrightarrow> of_kind HCapRight p' = of_kind HCapRight p \<and>
                              of_kind HCapLeft p' = of_kind HCapLeft p)"
proof (cases "opt_width d \<noteq> None \<or> opt_right d \<noteq> None \<or> opt_left d \<noteq> None")
  case True
  from horizontal_pass_Inr [OF assms True] show ?thesis
    by (auto simp: of_kind_seg_of of_kind_horizontal_caps)
next
  case False
  with assms show ?thesis by (simp add: horizontal_pass_skip)
qed

lemma drawPath_Inr:
  assumes "drawPath s = Inr s'" and "opt_x (opts s) = Some x" and "opt_y (opts s) = Some y"
  shows "\<exists>p r q. vertical_pass (opts s) x y [] = Inr (p, r) \<and>
           horizontal_pass (opts s) x y r p = Inr q \<and>
           s' = s\<lparr>path := Some q, events := events s @ [PrepareGeometryChange]\<rparr>"
  using assms by (auto simp: drawPath_def bindE_Inr_iff)

lemma drawPath_missing:
  "opt_x (opts s) = None \<or> opt_y (opts s) = None \<Longrightarrow> drawPath s = Inr s"
  by (auto simp: drawPath_def split: option.splits)

text \<open>The options that top and bottom do not reach when height is set.\<close>

lemma getDrawValue_logMode:
  "opt_logMode d' = opt_logMode d \<Longrightarrow> getDrawValue d' = getDrawValue d"
  by (simp add: getDrawValue_def fun_eq_iff)

lemma beam_cong:
  "opt_beam d' = opt_beam d \<Longrightarrow> beam_on d' = beam_on d \<and> beam_sub d' = beam_sub d \<and> beam_add d' = beam_add d"
  by (simp add: beam_on_def beam_sub_def beam_add_def fun_eq_iff)

lemma vertical_pass_height:
  assumes "opt_height d = Some h"
  shows "vertical_pass (d\<lparr>opt_top := t, opt_bottom := b\<rparr>) x y p = vertical_pass d x y p"
proof -
  let ?d = "d\<lparr>opt_top := t, opt_bottom := b\<rparr>"
  have g: "getDrawValue ?d = getDrawValue d" by (rule getDrawValue_logMode) simp
  have e: "vertical_ends ?d y = vertical_ends d y"
    using assms by (simp add: vertical_ends_def)
  have bm: "beam_on ?d = beam_on d" "beam_sub ?d = beam_sub d" "beam_add ?d = beam_add d"
    using beam_cong [of ?d d] by simp_all
  have c: "vertical_caps ?d = vertical_caps d"
    using assms by (simp add: vertical_caps_def bm fun_eq_iff)
  show ?thesis using assms by (simp add: vertical_pass_def g e c)
qed

lemma horizontal_pass_top_bottom:
  "horizontal_pass (d\<lparr>opt_top := t, opt_bottom := b\<rparr>) x y r p = horizontal_pass d x y r p"
proof -
  let ?d = "d\<lparr>opt_top := t, opt_bottom := b\<rparr>"
  have g: "getDrawValue ?d = getDrawValue d" by (rule getDrawValue_logMode) simp
  have e: "horizontal_ends ?d x = horizontal_ends d x"
    by (simp add: horizontal_ends_def cong: option.case_cong)
  have bm: "beam_on ?d = beam_on d" "beam_sub ?d = beam_sub d" "beam_add ?d = beam_add d"
    using beam_cong [of ?d d] by simp_all
  have c: "horizontal_caps ?d = horizontal_caps d"
    by (simp add: horizontal_caps_def bm fun_eq_iff cong: if_cong)
  show ?thesis by (simp add: horizontal_pass_def g e c)
qed

lemma drawPath_path:
  assumes "opt_x (opts s) = Some x" and "opt_y (opts s) = Some y"
  shows "map_sum id path (drawPath s) =
         bindE (bindE (vertical_pass (opts s) x y []) (\<lambda>(p, rx). horizontal_pass (opts s) x y rx p))
           (\<lambda>q. Inr (Some q))"
proof (cases "vertical_pass (opts s) x y []")
  case (Inl e)
  with assms show ?thesis by (simp add: drawPath_def)
next
  case (Inr v)
  obtain p r where v: "v = (p, r)" by (cases v)
  show ?thesis using assms Inr v
    by (cases "horizontal_pass (opts s) x y r p") (simp_all add: drawPath_def)
qed

lemma vertical_pass_kinds:
  assumes "vertical_pass d x y p = Inr (p', r)"
  shows "of_kind HBar p' = of_kind HBar p \<and>
         of_kind HCapRight p' = of_kind HCapRight p \<and>
         of_kind HCapLeft p' = of_kind HCapLeft p \<and>
         (\<not> beam_on d \<or> (opt_height d = None \<and> opt_top d = None) \<longrightarrow>
            of_kind VCapUpper p' = of_kind VCapUpper p) \<and>
         (\<not> beam_on d \<or> (opt_height d = None \<and> opt_bottom d = None) \<longrightarrow>
            of_kind VCapLower p' = of_kind VCapLower p)"
proof (cases "opt_height d \<noteq> None \<or> opt_top d \<noteq> None \<or> opt_bottom d \<noteq> None")
  case True
  from vertical_pass_Inr [OF assms True] show ?thesis
    by (auto simp: of_kind_seg_of of_kind_vertical_caps)
next
  case False
  with assms show ?thesis by (simp add: vertical_pass_skip)
qed

text \<open>The end points that \<open>height\<close> gives, for a single value and for an array.\<close>

lemma broadcast_single:
  "broadcast f ys [c] = Inr (map (\<lambda>v. f v c) ys)"
proof (cases "length ys = 1")
  case True
  then obtain v where "ys = [v]" by (cases ys) auto
  then show ?thesis by (simp add: broadcast_def)
next
  case False
  then show ?thesis by (simp add: broadcast_def)
qed

lemma broadcast_zip:
  "length ys = length cs \<Longrightarrow> broadcast f ys (map g cs) = Inr (map2 (\<lambda>v c. f v (g c)) ys cs)"
  by (simp add: broadcast_def zip_map2 split_def)

lemma height_ends:
  assumes "arr_sub y (div2 h) = Inr y1" and "arr_add y (div2 h) = Inr y2"
  shows "(\<forall>c. h = Scalar c \<longrightarrow>
            y1 = map (\<lambda>v. fsub v (fdiv2 c)) y \<and> y2 = map (\<lambda>v. fadd v (fdiv2 c)) y) \<and>
         (\<forall>cs. h = Array cs \<and> length cs = length y \<longrightarrow>
            y1 = map2 (\<lambda>v c. fsub v (fdiv2 c)) y cs \<and>
            y2 = map2 (\<lambda>v c. fadd v (fdiv2 c)) y cs) \<and>
         (\<forall>c. h = Array [c] \<longrightarrow>
            y1 = map (\<lambda>v. fsub v (fdiv2 c)) y \<and> y2 = map (\<lambda>v. fadd v (fdiv2 c)) y)"
  using assms by (auto simp: broadcast_zip broadcast_single)

lemma half_finite:
  "fsub (Fin a) (fdiv2 (Fin c)) = Fin (a - c / 2) \<and> fadd (Fin a) (fdiv2 (Fin c)) = Fin (a + c / 2)"
  by (simp add: fsub_def)

section \<open>Claims\<close>

text \<open>
  C1. With \<open>x\<close> and \<open>y\<close> missing (scenario D), \<open>drawPath\<close> returns at once and stores
  no path: the item is as it was, its path still \<open>None\<close>. \<open>boundingRect\<close> then asks
  \<open>None\<close> for its bounding rectangle, which is an AttributeError; no empty box is
  returned.
\<close>

theorem boundingRect_without_xy:
  "drawPath scenario_D = Inr scenario_D \<and> path scenario_D = None \<and>
   boundingRect rect scenario_D = Inl AttributeError"
  by (simp add: scenario_D_def evals boundingRect_def path_boundingRect_def)

text \<open>
  C2. The loops of the horizontal bars run over \<open>range(len(rx))\<close>, where \<open>rx\<close> is the
  filtered array of the vertical bars. With horizontal bars only, \<open>rx\<close> is unbound and
  \<open>drawPath\<close> raises. With both, the number of horizontal bars is the number of points
  the vertical filter kept: in \<open>unequal_filters\<close> the horizontal filter keeps both
  points, and one horizontal bar is drawn; in \<open>vertical_keeps_more\<close> the loop reads
  past the end of the horizontal arrays.
\<close>

theorem horizontal_loops_use_vertical_rx:
  "drawPath horizontal_only = Inl UnboundLocalError \<and>
   nan_filter [Fin 1, Fin 2] [Fin 1, Fin 2] (getDrawValue (opts unequal_filters) [Fin 1, Fin 1] False) =
     Inr ([Fin 1, Fin 2], [Fin 1, Fin 2], [Fin 0, Fin 0]) \<and>
   horizontal_ends (opts unequal_filters) [Fin 1, Fin 2] = Inr ([Fin 1, Fin 2], [Fin 1, Fin 2]) \<and>
   map_sum id path (drawPath unequal_filters) =
     Inr (Some [(VBar, ((Fin 1, Fin 0), (Fin 1, Fin 0))), (HBar, ((Fin 1, Fin 0), (Fin 1, Fin 0)))]) \<and>
   drawPath vertical_keeps_more = Inl IndexError"
  by (simp add: horizontal_only_def unequal_filters_def vertical_keeps_more_def evals)

text \<open>
  C3. When \<open>height\<close> is given, the vertical bars run from \<open>y - height/2\<close> to
  \<open>y + height/2\<close> (transformed for the axes' log mode), and \<open>top\<close> and \<open>bottom\<close> do
  not matter: whatever they are set to, the path is the one of the item as it was, and
  its vertical bars are given by \<open>x\<close>, \<open>y\<close>, \<open>height\<close> and the log mode alone.
  The end points are spelled out: with a single value \<open>c\<close> as height they are
  \<open>y[i] - c/2\<close> and \<open>y[i] + c/2\<close>, with an array they are \<open>y[i] - height[i]/2\<close> and
  \<open>y[i] + height[i]/2\<close> (an array of one element counts for every point), and on
  finite numbers these are the differences and sums of the numbers themselves.
\<close>

theorem height_overrides_top_bottom:
  assumes h: "opt_height (opts s) = Some h"
    and x: "opt_x (opts s) = Some x" and y: "opt_y (opts s) = Some y"
  shows "map_sum id path (drawPath (s\<lparr>opts := (opts s)\<lparr>opt_top := t, opt_bottom := b\<rparr>\<rparr>)) =
           map_sum id path (drawPath s) \<and>
         (\<forall>s'. drawPath (s\<lparr>opts := (opts s)\<lparr>opt_top := t, opt_bottom := b\<rparr>\<rparr>) = Inr s' \<longrightarrow>
           (\<exists>y1 y2 p. arr_sub y (div2 h) = Inr y1 \<and> arr_add y (div2 h) = Inr y2 \<and>
              (\<forall>c. h = Scalar c \<longrightarrow>
                 y1 = map (\<lambda>v. fsub v (fdiv2 c)) y \<and> y2 = map (\<lambda>v. fadd v (fdiv2 c)) y) \<and>
              (\<forall>cs. h = Array cs \<and> length cs = length y \<longrightarrow>
                 y1 = map2 (\<lambda>v c. fsub v (fdiv2 c)) y cs \<and>
                 y2 = map2 (\<lambda>v c. fadd v (fdiv2 c)) y cs) \<and>
              (\<forall>c. h = Array [c] \<longrightarrow>
                 y1 = map (\<lambda>v. fsub v (fdiv2 c)) y \<and> y2 = map (\<lambda>v. fadd v (fdiv2 c)) y) \<and>
              path s' = Some p \<and>
              of_kind VBar p =
                map (\<lambda>i. ((getDrawValue (opts s) x True ! i, getDrawValue (opts s) y1 False ! i),
                          (getDrawValue (opts s) x True ! i, getDrawValue (opts s) y2 False ! i)))
                  (surviving (getDrawValue (opts s) x True) (getDrawValue (opts s) y1 False)
                     (getDrawValue (opts s) y2 False)))) \<and>
         (\<forall>a c. fsub (Fin a) (fdiv2 (Fin c)) = Fin (a - c / 2) \<and>
                 fadd (Fin a) (fdiv2 (Fin c)) = Fin (a + c / 2)) \<and>
         fdiv2 NaN = NaN \<and> fdiv2 PInf = PInf \<and> fdiv2 NInf = NInf"
proof -
  let ?d = "(opts s)\<lparr>opt_top := t, opt_bottom := b\<rparr>"
  let ?s = "s\<lparr>opts := ?d\<rparr>"
  let ?rx = "getDrawValue (opts s) x True"
  have eq: "map_sum id path (drawPath ?s) = map_sum id path (drawPath s)"
    using x y h
    by (simp add: drawPath_path [of _ x y] vertical_pass_height horizontal_pass_top_bottom)
  have bars: "\<exists>y1 y2 p. arr_sub y (div2 h) = Inr y1 \<and> arr_add y (div2 h) = Inr y2 \<and>
              (\<forall>c. h = Scalar c \<longrightarrow>
                 y1 = map (\<lambda>v. fsub v (fdiv2 c)) y \<and> y2 = map (\<lambda>v. fadd v (fdiv2 c)) y) \<and>
              (\<forall>cs. h = Array cs \<and> length cs = length y \<longrightarrow>
                 y1 = map2 (\<lambda>v c. fsub v (fdiv2 c)) y cs \<and>
                 y2 = map2 (\<lambda>v c. fadd v (fdiv2 c)) y cs) \<and>
              (\<forall>c. h = Array [c] \<longrightarrow>
                 y1 = map (\<lambda>v. fsub v (fdiv2 c)) y \<and> y2 = map (\<lambda>v. fadd v (fdiv2 c)) y) \<and>
              path s' = Some p \<and>
              of_kind VBar p =
                map (\<lambda>i. ((?rx ! i, getDrawValue (opts s) y1 False ! i),
                          (?rx ! i, getDrawValue (opts s) y2 False ! i)))
                  (surviving ?rx (getDrawValue (opts s) y1 False)
                     (getDrawValue (opts s) y2 False))"
    if ok: "drawPath ?s = Inr s'" for s'
  proof -
    from drawPath_Inr [OF ok, of x y] x y obtain p r q where
      v: "vertical_pass ?d x y [] = Inr (p, r)"
      and hz: "horizontal_pass ?d x y r p = Inr q"
      and s': "path s' = Some q"
      by auto
    from v h have v': "vertical_pass (opts s) x y [] = Inr (p, r)"
      by (simp add: vertical_pass_height)
    from h have taken: "opt_height (opts s) \<noteq> None \<or> opt_top (opts s) \<noteq> None \<or> opt_bottom (opts s) \<noteq> None"
      by simp
    from vertical_pass_Inr [OF v' taken] obtain y1 y2 where
      ends: "vertical_ends (opts s) y = Inr (y1, y2)"
      and p: "p = [] @ map (seg_of VBar ?rx (getDrawValue (opts s) y1 False)
                          ?rx (getDrawValue (opts s) y2 False))
                      (surviving ?rx (getDrawValue (opts s) y1 False) (getDrawValue (opts s) y2 False))
                  @ vertical_cap_segments (opts s) ?rx (getDrawValue (opts s) y1 False)
                      (getDrawValue (opts s) y2 False)"
      by blast
    from ends h have y12: "arr_sub y (div2 h) = Inr y1" "arr_add y (div2 h) = Inr y2"
      by (auto simp: vertical_ends_def bindE_Inr_iff)
    from horizontal_pass_kinds [OF hz] have "of_kind VBar q = of_kind VBar p" by simp
    also have "\<dots> = map (\<lambda>i. ((?rx ! i, getDrawValue (opts s) y1 False ! i),
                          (?rx ! i, getDrawValue (opts s) y2 False ! i)))
                  (surviving ?rx (getDrawValue (opts s) y1 False)
                     (getDrawValue (opts s) y2 False))"
      unfolding p by (simp add: of_kind_seg_of of_kind_vertical_caps)
    finally have vb: "of_kind VBar q = map (\<lambda>i. ((?rx ! i, getDrawValue (opts s) y1 False ! i),
                          (?rx ! i, getDrawValue (opts s) y2 False ! i)))
                  (surviving ?rx (getDrawValue (opts s) y1 False)
                     (getDrawValue (opts s) y2 False))" .
    from height_ends [OF y12] y12 s' vb show ?thesis
      by (intro exI [of _ y1] exI [of _ y2] exI [of _ q]) simp
  qed
  have fin: "\<forall>a c. fsub (Fin a) (fdiv2 (Fin c)) = Fin (a - c / 2) \<and>
                 fadd (Fin a) (fdiv2 (Fin c)) = Fin (a + c / 2)"
    using half_finite by blast
  have sp: "fdiv2 NaN = NaN \<and> fdiv2 PInf = PInf \<and> fdiv2 NInf = NInf" by simp
  from bars have bars': "\<forall>s'. drawPath ?s = Inr s' \<longrightarrow>
      (\<exists>y1 y2 p. arr_sub y (div2 h) = Inr y1 \<and> arr_add y (div2 h) = Inr y2 \<and>
              (\<forall>c. h = Scalar c \<longrightarrow>
                 y1 = map (\<lambda>v. fsub v (fdiv2 c)) y \<and> y2 = map (\<lambda>v. fadd v (fdiv2 c)) y) \<and>
              (\<forall>cs. h = Array cs \<and> length cs = length y \<longrightarrow>
                 y1 = map2 (\<lambda>v c. fsub v (fdiv2 c)) y cs \<and>
                 y2 = map2 (\<lambda>v c. fadd v (fdiv2 c)) y cs) \<and>
              (\<forall>c. h = Array [c] \<longrightarrow>
                 y1 = map (\<lambda>v. fsub v (fdiv2 c)) y \<and> y2 = map (\<lambda>v. fadd v (fdiv2 c)) y) \<and>
              path s' = Some p \<and>
              of_kind VBar p =
                map (\<lambda>i. ((?rx ! i, getDrawValue (opts s) y1 False ! i),
                          (?rx ! i, getDrawValue (opts s) y2 False ! i)))
                  (surviving ?rx (getDrawValue (opts s) y1 False)
                     (getDrawValue (opts s) y2 False)))"
    by blast
  show ?thesis
    by (rule conjI [OF eq conjI [OF bars' conjI [OF fin sp]]])
qed

theorem height_overrides_top_bottom_witness:
  "opt_height (opts scenario_B) = Some (Array [Fin 4, Fin 4]) \<and>
   opt_x (opts scenario_B) = Some [Fin 1, Fin 2] \<and>
   opt_y (opts scenario_B) = Some [Fin 10, Fin 20] \<and>
   opt_top (opts scenario_B) = Some (Array [Fin 1, Fin 1]) \<and>
   map_sum id path (drawPath (scenario_B\<lparr>opts := (opts scenario_B)\<lparr>opt_top := None, opt_bottom := None\<rparr>\<rparr>)) =
     map_sum id path (drawPath scenario_B) \<and>
   map_sum id (\<lambda>s'. map_option (of_kind VBar) (path s')) (drawPath scenario_B) =
     Inr (Some [((Fin 1, Fin 8), (Fin 1, Fin 12)), ((Fin 2, Fin 18), (Fin 2, Fin 22))]) \<and>
   opt_height (opts scalar_height) = Some (Scalar (Fin 2)) \<and>
   opt_x (opts scalar_height) = Some [Fin 1] \<and>
   opt_y (opts scalar_height) = Some [Fin 10] \<and>
   arr_sub [Fin 10] (div2 (Scalar (Fin 2))) = Inr [Fin 9] \<and>
   arr_add [Fin 10] (div2 (Scalar (Fin 2))) = Inr [Fin 11] \<and>
   map_sum id path (drawPath (scalar_height\<lparr>opts := (opts scalar_height)\<lparr>opt_top := Some (Scalar (Fin 5)), opt_bottom := None\<rparr>\<rparr>)) =
     Inr (Some [(VBar, ((Fin 1, Fin 9), (Fin 1, Fin 11)))]) \<and>
   fsub (Fin 10) (fdiv2 (Fin 2)) = Fin 9 \<and> fadd (Fin 10) (fdiv2 (Fin 2)) = Fin 11"
proof -
  have h: "opt_height (opts scenario_B) = Some (Array [Fin 4, Fin 4])"
    and x: "opt_x (opts scenario_B) = Some [Fin 1, Fin 2]"
    and y: "opt_y (opts scenario_B) = Some [Fin 10, Fin 20]"
    and t: "opt_top (opts scenario_B) = Some (Array [Fin 1, Fin 1])"
    by (simp_all add: scenario_B_def scenario_A_def evals)
  have v: "map_sum id (\<lambda>s'. map_option (of_kind VBar) (path s')) (drawPath scenario_B) =
     Inr (Some [((Fin 1, Fin 8), (Fin 1, Fin 12)), ((Fin 2, Fin 18), (Fin 2, Fin 22))])"
    by (simp add: scenario_B_def scenario_A_def evals of_kind_def)
  have h': "opt_height (opts scalar_height) = Some (Scalar (Fin 2))"
    and x': "opt_x (opts scalar_height) = Some [Fin 1]"
    and y': "opt_y (opts scalar_height) = Some [Fin 10]"
    by (simp_all add: scalar_height_def evals)
  have e: "arr_sub [Fin 10] (div2 (Scalar (Fin 2))) = Inr [Fin 9]"
    "arr_add [Fin 10] (div2 (Scalar (Fin 2))) = Inr [Fin 11]"
    by (simp_all add: fsub_def)
  have v': "map_sum id path (drawPath scalar_height) =
     Inr (Some [(VBar, ((Fin 1, Fin 9), (Fin 1, Fin 11)))])"
    by (simp add: scalar_height_def evals)
  from height_overrides_top_bottom [OF h x y, where t = None and b = None]
  have a: "map_sum id path (drawPath (scenario_B\<lparr>opts := (opts scenario_B)\<lparr>opt_top := None, opt_bottom := None\<rparr>\<rparr>)) =
     map_sum id path (drawPath scenario_B)"
    by (rule conjunct1)
  note sc = height_overrides_top_bottom [OF h' x' y', where t = "Some (Scalar (Fin 5))" and b = None]
  from sc have b: "map_sum id path (drawPath (scalar_height\<lparr>opts := (opts scalar_height)\<lparr>opt_top := Some (Scalar (Fin 5)), opt_bottom := None\<rparr>\<rparr>)) =
     map_sum id path (drawPath scalar_height)"
    by (rule conjunct1)
  from sc have f: "fsub (Fin 10) (fdiv2 (Fin 2)) = Fin (10 - 2 / 2) \<and> fadd (Fin 10) (fdiv2 (Fin 2)) = Fin (10 + 2 / 2)"
    by blast
  from f have f': "fsub (Fin 10) (fdiv2 (Fin 2)) = Fin 9" "fadd (Fin 10) (fdiv2 (Fin 2)) = Fin 11"
    by simp_all
  from h x y t v a h' x' y' e b v' f' show ?thesis by simp
qed

text \<open>
  C4. In the vertical pass an index is kept exactly when none of \<open>rx[i]\<close>, \<open>ry1[i]\<close>,
  \<open>ry2[i]\<close> is NaN. There is one vertical bar per kept index, from \<open>(rx[i], ry1[i])\<close>
  to \<open>(rx[i], ry2[i])\<close>, and no loop of the pass draws more segments than there are
  kept indices: a point with a NaN end contributes nothing. In scenario C
  (\<open>log10(-1)\<close> is NaN) the pass draws no segment.
\<close>

theorem vertical_filter_drops_nan_points:
  assumes pass: "vertical_pass d x y [] = Inr (p, r)"
    and taken: "opt_height d \<noteq> None \<or> opt_top d \<noteq> None \<or> opt_bottom d \<noteq> None"
    and ends: "vertical_ends d y = Inr (y1, y2)"
    and rx: "rx = getDrawValue d x True"
    and ry1: "ry1 = getDrawValue d y1 False"
    and ry2: "ry2 = getDrawValue d y2 False"
  shows "set (surviving rx ry1 ry2) =
           {i. i < length rx \<and> \<not> np_isnan (rx ! i) \<and> \<not> np_isnan (ry1 ! i) \<and> \<not> np_isnan (ry2 ! i)} \<and>
         of_kind VBar p =
           map (\<lambda>i. ((rx ! i, ry1 ! i), (rx ! i, ry2 ! i))) (surviving rx ry1 ry2) \<and>
         (\<forall>k. length (of_kind k p) \<le> length (surviving rx ry1 ry2)) \<and>
         r = Some (map ((!) rx) (surviving rx ry1 ry2))"
proof -
  from vertical_pass_Inr [OF pass taken] ends
  have r: "r = Some (map ((!) rx) (surviving rx ry1 ry2))"
    and p: "p = [] @ map (seg_of VBar rx ry1 rx ry2) (surviving rx ry1 ry2) @
                vertical_cap_segments d rx ry1 ry2"
    by (auto simp: rx ry1 ry2)
  have s: "set (surviving rx ry1 ry2) =
           {i. i < length rx \<and> \<not> np_isnan (rx ! i) \<and> \<not> np_isnan (ry1 ! i) \<and> \<not> np_isnan (ry2 ! i)}"
    by (auto simp: surviving_def)
  have b: "of_kind VBar p = map (\<lambda>i. ((rx ! i, ry1 ! i), (rx ! i, ry2 ! i))) (surviving rx ry1 ry2)"
    unfolding p by (simp add: of_kind_seg_of of_kind_vertical_caps)
  have k: "length (of_kind k p) \<le> length (surviving rx ry1 ry2)" for k
    unfolding p by (simp add: of_kind_seg_of of_kind_vertical_caps)
  from s b k r show ?thesis by blast
qed

theorem vertical_filter_drops_nan_points_witness:
  "opt_height (opts scenario_C) = Some (Array [Fin 2]) \<and>
   vertical_ends (opts scenario_C) [Fin 0] = Inr ([Fin (- 1)], [Fin 1]) \<and>
   getDrawValue (opts scenario_C) [Fin (- 1)] False = [NaN] \<and>
   getDrawValue (opts scenario_C) [Fin 1] False = [Fin 0] \<and>
   vertical_pass (opts scenario_C) [Fin 1] [Fin 0] [] = Inr ([], Some []) \<and>
   surviving [Fin 1] [NaN] [Fin 0] = [] \<and>
   vertical_pass (opts one_dropped) [Fin 1, Fin 1] [Fin 0, Fin 10] [] =
     Inr ([(VBar, ((Fin 1, Fin (log 10 9)), (Fin 1, Fin (log 10 11))))], Some [Fin 1]) \<and>
   set (surviving [Fin 1, Fin 1] [NaN, Fin (log 10 9)] [Fin 0, Fin (log 10 11)]) = {1}"
proof -
  have h: "opt_height (opts scenario_C) = Some (Array [Fin 2])"
    and e: "vertical_ends (opts scenario_C) [Fin 0] = Inr ([Fin (- 1)], [Fin 1])"
    and g1: "getDrawValue (opts scenario_C) [Fin (- 1)] False = [NaN]"
    and g2: "getDrawValue (opts scenario_C) [Fin 1] False = [Fin 0]"
    and gx: "getDrawValue (opts scenario_C) [Fin 1] True = [Fin 1]"
    and v: "vertical_pass (opts scenario_C) [Fin 1] [Fin 0] [] = Inr ([], Some [])"
    by (simp_all add: scenario_C_def evals)
  from h have t: "opt_height (opts scenario_C) \<noteq> None \<or> opt_top (opts scenario_C) \<noteq> None \<or>
      opt_bottom (opts scenario_C) \<noteq> None" by simp
  have h': "opt_height (opts one_dropped) \<noteq> None \<or> opt_top (opts one_dropped) \<noteq> None \<or>
      opt_bottom (opts one_dropped) \<noteq> None"
    and e': "vertical_ends (opts one_dropped) [Fin 0, Fin 10] = Inr ([Fin (- 1), Fin 9], [Fin 1, Fin 11])"
    and g1': "getDrawValue (opts one_dropped) [Fin (- 1), Fin 9] False = [NaN, Fin (log 10 9)]"
    and g2': "getDrawValue (opts one_dropped) [Fin 1, Fin 11] False = [Fin 0, Fin (log 10 11)]"
    and gx': "getDrawValue (opts one_dropped) [Fin 1, Fin 1] True = [Fin 1, Fin 1]"
    and v': "vertical_pass (opts one_dropped) [Fin 1, Fin 1] [Fin 0, Fin 10] [] =
     Inr ([(VBar, ((Fin 1, Fin (log 10 9)), (Fin 1, Fin (log 10 11))))], Some [Fin 1])"
    by (simp_all add: one_dropped_def evals)
  from vertical_filter_drops_nan_points [OF v t e refl refl refl]
  have s: "surviving [Fin 1] [NaN] [Fin 0] = []"
    by (simp add: g1 g2 gx)
  from vertical_filter_drops_nan_points [OF v' h' e' refl refl refl]
  have s': "set (surviving [Fin 1, Fin 1] [NaN, Fin (log 10 9)] [Fin 0, Fin (log 10 11)]) = {1}"
    unfolding g1' g2' gx' by (auto simp: less_Suc_eq)
  from h e g1 g2 v s v' s' show ?thesis by simp
qed

text \<open>
  C5, as the claim states it, fails at zero: \<open>log10(0)\<close> is minus infinity, not NaN.
\<close>

theorem getDrawValue_zero_counterexample:
  "getDrawValue (default_opts\<lparr>opt_logMode := (False, True)\<rparr>) [Fin 0] False = [NInf] \<and>
   \<not> np_isnan (hd (getDrawValue (default_opts\<lparr>opt_logMode := (False, True)\<rparr>) [Fin 0] False))"
  by (simp add: getDrawValue_def default_opts_def)

text \<open>
  C5, amended. \<open>getDrawValue\<close> never fails and keeps the length. On an axis in log mode
  each value is replaced by its \<open>log10\<close>, which is NaN for a negative value (and for
  NaN), minus infinity for zero, and the logarithm for a positive value. On an axis not
  in log mode the values are unchanged.
\<close>

theorem getDrawValue_log:
  "length (getDrawValue d data horizontal) = length data \<and>
   ((if horizontal then fst (opt_logMode d) else snd (opt_logMode d)) \<longrightarrow>
      (\<forall>i<length data. getDrawValue d data horizontal ! i = np_log10 (data ! i))) \<and>
   (\<not> (if horizontal then fst (opt_logMode d) else snd (opt_logMode d)) \<longrightarrow>
      getDrawValue d data horizontal = data) \<and>
   (\<forall>v. np_isnan (np_log10 (Fin v)) = (v < 0)) \<and>
   np_log10 (Fin 0) = NInf \<and>
   (\<forall>v>0. np_log10 (Fin v) = Fin (log 10 v)) \<and>
   np_log10 NaN = NaN"
  by (auto simp: getDrawValue_def)

theorem getDrawValue_log_witness:
  "getDrawValue (opts scenario_C) [Fin (- 1), Fin 0, Fin 1, NaN] False = [NaN, NInf, Fin 0, NaN] \<and>
   getDrawValue (opts scenario_C) [Fin (- 1), Fin 0, Fin 1, NaN] True = [Fin (- 1), Fin 0, Fin 1, NaN] \<and>
   length (getDrawValue (opts scenario_C) [Fin (- 1), Fin 0, Fin 1, NaN] False) = 4"
  using getDrawValue_log [of "opts scenario_C" "[Fin (- 1), Fin 0, Fin 1, NaN]" False]
  by (simp add: scenario_C_def evals)

text \<open>
  C6. Beams are drawn only with a beam that is present and positive: with no beam, a beam
  of zero, or any beam that is not greater than zero, a built path has no cap segment of
  any of the four loops, whatever the other options are. With a beam, the upper caps of
  the vertical bars are drawn only if \<open>height\<close> or \<open>top\<close> is given and the lower caps
  only if \<open>height\<close> or \<open>bottom\<close> is given.
\<close>

theorem beam_caps_need_positive_beam:
  assumes ok: "drawPath s = Inr s'"
    and x: "opt_x (opts s) = Some x" and y: "opt_y (opts s) = Some y"
    and p: "path s' = Some p"
  shows "((opt_beam (opts s) = None \<or> opt_beam (opts s) = Some (Fin 0) \<or>
           (\<exists>b. opt_beam (opts s) = Some b \<and> \<not> fgt0 b)) \<longrightarrow>
            of_kind VCapUpper p = [] \<and> of_kind VCapLower p = [] \<and>
            of_kind HCapRight p = [] \<and> of_kind HCapLeft p = []) \<and>
         (opt_height (opts s) = None \<and> opt_top (opts s) = None \<longrightarrow> of_kind VCapUpper p = []) \<and>
         (opt_height (opts s) = None \<and> opt_bottom (opts s) = None \<longrightarrow> of_kind VCapLower p = [])"
proof -
  from drawPath_Inr [OF ok x y] p obtain p0 r where
    v: "vertical_pass (opts s) x y [] = Inr (p0, r)"
    and h: "horizontal_pass (opts s) x y r p0 = Inr p"
    by auto
  have off: "\<not> beam_on (opts s)"
    if "opt_beam (opts s) = None \<or> opt_beam (opts s) = Some (Fin 0) \<or>
        (\<exists>b. opt_beam (opts s) = Some b \<and> \<not> fgt0 b)"
    using that by (auto simp: beam_on_def)
  from vertical_pass_kinds [OF v] horizontal_pass_kinds [OF h] off
  show ?thesis by auto
qed

theorem beam_caps_need_positive_beam_witness:
  "opt_beam (opts scenario_A_beam0) = Some (Fin 0) \<and>
   opt_x (opts scenario_A_beam0) = Some [Fin 1, Fin 2] \<and>
   opt_y (opts scenario_A_beam0) = Some [Fin 10, Fin 20] \<and>
   map_sum id path (drawPath scenario_A_beam0) =
     Inr (Some [(VBar, ((Fin 1, Fin 9), (Fin 1, Fin 11))), (VBar, ((Fin 2, Fin 19), (Fin 2, Fin 21)))]) \<and>
   of_kind VCapUpper [(VBar, ((Fin 1, Fin 9), (Fin 1, Fin 11))), (VBar, ((Fin 2, Fin 19), (Fin 2, Fin 21)))] = [] \<and>
   map_sum id (\<lambda>s'. map_option (of_kind VCapUpper) (path s')) (drawPath scenario_A) =
     Inr (Some [((Fin (3 / 4), Fin 11), (Fin (5 / 4), Fin 11)), ((Fin (7 / 4), Fin 21), (Fin (9 / 4), Fin 21))])"
proof -
  let ?p = "[(VBar, ((Fin 1, Fin 9), (Fin 1, Fin 11))), (VBar, ((Fin 2, Fin 19), (Fin 2, Fin 21)))]"
  have b: "opt_beam (opts scenario_A_beam0) = Some (Fin 0)"
    and x: "opt_x (opts scenario_A_beam0) = Some [Fin 1, Fin 2]"
    and y: "opt_y (opts scenario_A_beam0) = Some [Fin 10, Fin 20]"
    by (simp_all add: scenario_A_beam0_def scenario_A_def evals)
  have d: "drawPath scenario_A_beam0 =
      Inr (scenario_A_beam0\<lparr>path := Some ?p, events := events scenario_A_beam0 @ [PrepareGeometryChange]\<rparr>)"
    by (simp add: scenario_A_beam0_def scenario_A_def evals)
  have a: "map_sum id (\<lambda>s'. map_option (of_kind VCapUpper) (path s')) (drawPath scenario_A) =
     Inr (Some [((Fin (3 / 4), Fin 11), (Fin (5 / 4), Fin 11)), ((Fin (7 / 4), Fin 21), (Fin (9 / 4), Fin 21))])"
    by (simp add: scenario_A_def evals of_kind_def)
  from beam_caps_need_positive_beam [OF d x y, of ?p] b
  have "of_kind VCapUpper ?p = []" by simp
  with b x y d a show ?thesis by simp
qed

text \<open>
  C7. \<open>drawPath\<close> reads the options and does not change them, so calling it again
  right after a call that returned also returns, with the same path; and the path it
  builds is the same for every item with these options.
\<close>

theorem drawPath_idempotent:
  assumes ok: "drawPath s = Inr s1"
  shows "(\<exists>s2. drawPath s1 = Inr s2 \<and> path s2 = path s1 \<and> opts s2 = opts s1) \<and>
         opts s1 = opts s \<and>
         (\<forall>t. opts t = opts s \<and> path t = path s \<longrightarrow>
            map_sum id path (drawPath t) = Inr (path s1))"
proof (cases "opt_x (opts s) = None \<or> opt_y (opts s) = None")
  case True
  with ok have s1: "s1 = s" by (simp add: drawPath_missing)
  have "map_sum id path (drawPath t) = Inr (path s1)" if "opts t = opts s \<and> path t = path s" for t
    using that True s1 drawPath_missing [of t] by auto
  with s1 ok show ?thesis by auto
next
  case False
  then obtain x y where x: "opt_x (opts s) = Some x" and y: "opt_y (opts s) = Some y"
    by auto
  from drawPath_Inr [OF ok x y] obtain p r q where
    v: "vertical_pass (opts s) x y [] = Inr (p, r)"
    and h: "horizontal_pass (opts s) x y r p = Inr q"
    and s1: "s1 = s\<lparr>path := Some q, events := events s @ [PrepareGeometryChange]\<rparr>"
    by blast
  have again: "drawPath s1 = Inr (s1\<lparr>path := Some q, events := events s1 @ [PrepareGeometryChange]\<rparr>)"
    using x y v h by (simp add: s1 drawPath_def)
  have pure: "map_sum id path (drawPath t) = Inr (path s1)" if "opts t = opts s \<and> path t = path s" for t
    using that x y v h by (simp add: s1 drawPath_def)
  from again pure s1 show ?thesis by auto
qed

theorem drawPath_idempotent_witness:
  "\<exists>s1 s2. drawPath scenario_A = Inr s1 \<and> drawPath s1 = Inr s2 \<and> path s2 = path s1 \<and>
     path s1 = Some
       [(VBar, (Fin 1, Fin 9), Fin 1, Fin 11),
        (VBar, (Fin 2, Fin 19), Fin 2, Fin 21),
        (VCapUpper, (Fin (3 / 4), Fin 11), Fin (5 / 4), Fin 11),
        (VCapUpper, (Fin (7 / 4), Fin 21), Fin (9 / 4), Fin 21),
        (VCapLower, (Fin (3 / 4), Fin 9), Fin (5 / 4), Fin 9),
        (VCapLower, (Fin (7 / 4), Fin 19), Fin (9 / 4), Fin 19)]"
proof -
  let ?p = "[(VBar, (Fin 1, Fin 9), Fin 1, Fin 11),
        (VBar, (Fin 2, Fin 19), Fin 2, Fin 21),
        (VCapUpper, (Fin (3 / 4), Fin 11), Fin (5 / 4), Fin 11),
        (VCapUpper, (Fin (7 / 4), Fin 21), Fin (9 / 4), Fin 21),
        (VCapLower, (Fin (3 / 4), Fin 9), Fin (5 / 4), Fin 9),
        (VCapLower, (Fin (7 / 4), Fin 19), Fin (9 / 4), Fin 19)]"
  have d: "drawPath scenario_A =
      Inr (scenario_A\<lparr>path := Some ?p, events := events scenario_A @ [PrepareGeometryChange]\<rparr>)"
    by (simp add: scenario_A_def evals)
  from drawPath_idempotent [OF d] d show ?thesis by auto
qed

text \<open>
  C8. \<open>setLogMode(a, b)\<close> with the stored pair equal to \<open>(a, b)\<close> leaves the item as
  it is: path, options and notifications. Otherwise it stores the pair, leaves the other
  options alone, marks the path unbuilt and notifies.
\<close>

theorem setLogMode_noop:
  "(opt_logMode (opts s) = (xMode, yMode) \<longrightarrow> setLogMode xMode yMode s = s) \<and>
   (opt_logMode (opts s) \<noteq> (xMode, yMode) \<longrightarrow>
      opt_logMode (opts (setLogMode xMode yMode s)) = (xMode, yMode) \<and>
      (opts (setLogMode xMode yMode s))\<lparr>opt_logMode := opt_logMode (opts s)\<rparr> = opts s \<and>
      path (setLogMode xMode yMode s) = None \<and>
      events (setLogMode xMode yMode s) =
        events s @ [Update, PrepareGeometryChange, InformViewBoundsChanged])"
  by (simp add: setLogMode_def)

theorem setLogMode_noop_witness:
  "opt_logMode (opts scenario_C) = (False, True) \<and>
   setLogMode False True scenario_C = scenario_C \<and>
   opt_logMode (opts (setLogMode True True scenario_C)) = (True, True) \<and>
   path (setLogMode True True (scenario_C\<lparr>path := Some []\<rparr>)) = None \<and>
   path (setLogMode False True (scenario_C\<lparr>path := Some []\<rparr>)) = Some []"
proof -
  have m: "opt_logMode (opts scenario_C) = (False, True)"
    by (simp add: scenario_C_def evals)
  have m': "opt_logMode (opts (scenario_C\<lparr>path := Some []\<rparr>)) = (False, True)"
    using m by simp
  from setLogMode_noop [of scenario_C False True]
    setLogMode_noop [of scenario_C True True]
    setLogMode_noop [of "scenario_C\<lparr>path := Some []\<rparr>" True True]
    setLogMode_noop [of "scenario_C\<lparr>path := Some []\<rparr>" False True] m m'
  show ?thesis by simp
qed

text \<open>
  C9. \<open>setData\<close> merges: an option named in the call takes the value passed, an option
  not named keeps its value, and the path is marked unbuilt.
\<close>

theorem setData_merges:
  "path (setData kw s) = None \<and>
   (\<forall>v. kw_x kw = Some v \<longrightarrow> opt_x (opts (setData kw s)) = v) \<and>
   (kw_x kw = None \<longrightarrow> opt_x (opts (setData kw s)) = opt_x (opts s)) \<and>
   (\<forall>v. kw_y kw = Some v \<longrightarrow> opt_y (opts (setData kw s)) = v) \<and>
   (kw_y kw = None \<longrightarrow> opt_y (opts (setData kw s)) = opt_y (opts s)) \<and>
   (\<forall>v. kw_height kw = Some v \<longrightarrow> opt_height (opts (setData kw s)) = v) \<and>
   (kw_height kw = None \<longrightarrow> opt_height (opts (setData kw s)) = opt_height (opts s)) \<and>
   (\<forall>v. kw_width kw = Some v \<longrightarrow> opt_width (opts (setData kw s)) = v) \<and>
   (kw_width kw = None \<longrightarrow> opt_width (opts (setData kw s)) = opt_width (opts s)) \<and>
   (\<forall>v. kw_top kw = Some v \<longrightarrow> opt_top (opts (setData kw s)) = v) \<and>
   (kw_top kw = None \<longrightarrow> opt_top (opts (setData kw s)) = opt_top (opts s)) \<and>
   (\<forall>v. kw_bottom kw = Some v \<longrightarrow> opt_bottom (opts (setData kw s)) = v) \<and>
   (kw_bottom kw = None \<longrightarrow> opt_bottom (opts (setData kw s)) = opt_bottom (opts s)) \<and>
   (\<forall>v. kw_left kw = Some v \<longrightarrow> opt_left (opts (setData kw s)) = v) \<and>
   (kw_left kw = None \<longrightarrow> opt_left (opts (setData kw s)) = opt_left (opts s)) \<and>
   (\<forall>v. kw_right kw = Some v \<longrightarrow> opt_right (opts (setData kw s)) = v) \<and>
   (kw_right kw = None \<longrightarrow> opt_right (opts (setData kw s)) = opt_right (opts s)) \<and>
   (\<forall>v. kw_beam kw = Some v \<longrightarrow> opt_beam (opts (setData kw s)) = v) \<and>
   (kw_beam kw = None \<longrightarrow> opt_beam (opts (setData kw s)) = opt_beam (opts s)) \<and>
   (\<forall>v. kw_pen kw = Some v \<longrightarrow> opt_pen (opts (setData kw s)) = v) \<and>
   (kw_pen kw = None \<longrightarrow> opt_pen (opts (setData kw s)) = opt_pen (opts s)) \<and>
   (\<forall>v. kw_logMode kw = Some v \<longrightarrow> opt_logMode (opts (setData kw s)) = v) \<and>
   (kw_logMode kw = None \<longrightarrow> opt_logMode (opts (setData kw s)) = opt_logMode (opts s))"
  by (simp add: setData_def dict_update_def assign_def)

theorem setData_merges_witness:
  "kw_height (no_kwargs\<lparr>kw_height := Some (Some (Array [Fin 4, Fin 4]))\<rparr>) =
     Some (Some (Array [Fin 4, Fin 4])) \<and>
   kw_top (no_kwargs\<lparr>kw_height := Some (Some (Array [Fin 4, Fin 4]))\<rparr>) = None \<and>
   opt_height (opts scenario_B) = Some (Array [Fin 4, Fin 4]) \<and>
   opt_top (opts scenario_B) = opt_top (opts scenario_A) \<and>
   opt_top (opts scenario_A) = Some (Array [Fin 1, Fin 1]) \<and>
   path scenario_B = None"
proof -
  have k: "kw_height (no_kwargs\<lparr>kw_height := Some (Some (Array [Fin 4, Fin 4]))\<rparr>) =
     Some (Some (Array [Fin 4, Fin 4]))"
    "kw_top (no_kwargs\<lparr>kw_height := Some (Some (Array [Fin 4, Fin 4]))\<rparr>) = None"
    by (simp_all add: no_kwargs_def)
  have a: "opt_top (opts scenario_A) = Some (Array [Fin 1, Fin 1])"
    by (simp add: scenario_A_def evals)
  from setData_merges [of "no_kwargs\<lparr>kw_height := Some (Some (Array [Fin 4, Fin 4]))\<rparr>" scenario_A] k a
  show ?thesis unfolding scenario_B_def by simp
qed

text \<open>
  C10. \<open>setData\<close> has no check for a call that changes nothing: every call marks the
  path unbuilt and sends the three notifications, also the call with no argument, which
  leaves the options as they are.
\<close>

theorem setData_always_invalidates:
  "path (setData kw s) = None \<and>
   events (setData kw s) = events s @ [Update, PrepareGeometryChange, InformViewBoundsChanged] \<and>
   setData no_kwargs s =
     s\<lparr>path := None, events := events s @ [Update, PrepareGeometryChange, InformViewBoundsChanged]\<rparr>"
  by (simp add: setData_def dict_update_def assign_def no_kwargs_def)

theorem setData_always_invalidates_witness:
  "path (scenario_A\<lparr>path := Some []\<rparr>) = Some [] \<and>
   path (setData no_kwargs (scenario_A\<lparr>path := Some []\<rparr>)) = None \<and>
   opts (setData no_kwargs (scenario_A\<lparr>path := Some []\<rparr>)) = opts scenario_A \<and>
   events (setData no_kwargs (scenario_A\<lparr>path := Some []\<rparr>)) =
     events scenario_A @ [Update, PrepareGeometryChange, InformViewBoundsChanged]"
  using setData_always_invalidates [of no_kwargs "scenario_A\<lparr>path := Some []\<rparr>"]
  by simp

end
